theory Spec2Isabelle
  imports Complex_Main "HOL-Library.AList"
begin

section \<open>JavaScript values, strings and numbers\<close>

text \<open>
  A JavaScript string is modelled by its UTF-8 bytes (\<open>string\<close> is a list of 8-bit
  characters), so a Buffer built from a string holds the same list. Integral numbers
  (timestamps, tolerances, status codes, retry counts, clock readings) are modelled as
  \<open>int\<close>, which agrees with JavaScript's doubles as long as the values stay safe
  integers; \<open>None\<close> of an \<open>int option\<close> stands for \<open>NaN\<close> and \<open>None\<close> of a
  \<open>string option\<close> for \<open>undefined\<close>. The draws of \<open>Math.random()\<close> and the
  delays computed from them are modelled as reals.
\<close>

datatype js_value =
    JUndefined
  | JNull
  | JBool bool
  | JNum real
  | JStr string
  | JArr "js_value list"
  | JObj "(string \<times> js_value) list"

text \<open>Truthiness, as used by \<open>||\<close> and \<open>!\<close>.\<close>

fun truthy :: "js_value \<Rightarrow> bool" where
  "truthy JUndefined = False"
| "truthy JNull = False"
| "truthy (JBool b) = b"
| "truthy (JNum x) = (x \<noteq> 0)"
| "truthy (JStr s) = (s \<noteq> [])"
| "truthy (JArr xs) = True"
| "truthy (JObj kvs) = True"

definition js_or :: "js_value \<Rightarrow> js_value \<Rightarrow> js_value" where
  "js_or a b = (if truthy a then a else b)"

text \<open>
  Property read \<open>v.k\<close> for the keys read by this code (\<open>error\<close>, \<open>message\<close>,
  \<open>code\<close>, \<open>param\<close>): only an object decoded from JSON carries them; the last
  duplicate key wins, as in \<open>JSON.parse\<close>.
\<close>

fun js_get :: "js_value \<Rightarrow> string \<Rightarrow> js_value" where
  "js_get (JObj kvs) k = (case map_of (rev kvs) k of None \<Rightarrow> JUndefined | Some v \<Rightarrow> v)"
| "js_get v k = JUndefined"

text \<open>Optional chaining \<open>v?.k\<close>.\<close>

definition js_get_opt :: "js_value \<Rightarrow> string \<Rightarrow> js_value" where
  "js_get_opt v k = (if v = JUndefined \<or> v = JNull then JUndefined else js_get v k)"

subsection \<open>Number to string and \<open>parseInt\<close>\<close>

text \<open>\<open>Number.isSafeInteger\<close>: the integers that doubles count exactly.\<close>

definition isSafeInteger :: "int \<Rightarrow> bool" where
  "isSafeInteger n = (\<bar>n\<bar> \<le> 9007199254740991)"

definition digit_char :: "nat \<Rightarrow> char" where
  "digit_char d = ''0123456789'' ! d"

fun digits :: "nat \<Rightarrow> string" where
  "digits n = (if n < 10 then [digit_char n] else digits (n div 10) @ [digit_char (n mod 10)])"

text \<open>The template literal \<open>`${n}`\<close> of an integral number.\<close>

declare digits.simps [simp del]

definition toString :: "int \<Rightarrow> string" where
  "toString n = (if n < 0 then CHR ''-'' # digits (nat (- n)) else digits (nat n))"

definition isDigit :: "char \<Rightarrow> bool" where
  "isDigit c = (48 \<le> (of_char c :: nat) \<and> (of_char c :: nat) \<le> 57)"

definition digit_value :: "char \<Rightarrow> nat" where
  "digit_value c = of_char c - 48"

definition digits_value :: "string \<Rightarrow> nat" where
  "digits_value ds = foldl (\<lambda>acc c. acc * 10 + digit_value c) 0 ds"

text \<open>
  The white space that \<open>parseInt\<close> skips, as UTF-8 byte sequences: TAB, LF, VT, FF, CR,
  SP, U+00A0, U+1680, U+2000 to U+200A, U+2028, U+2029, U+202F, U+205F, U+3000, U+FEFF.
\<close>

definition whiteSpaceSeqs :: "nat list list" where
  "whiteSpaceSeqs =
     [[9], [10], [11], [12], [13], [32], [194, 160], [225, 154, 128],
      [226, 128, 128], [226, 128, 129], [226, 128, 130], [226, 128, 131],
      [226, 128, 132], [226, 128, 133], [226, 128, 134], [226, 128, 135],
      [226, 128, 136], [226, 128, 137], [226, 128, 138], [226, 128, 168],
      [226, 128, 169], [226, 128, 175], [226, 129, 159], [227, 128, 128],
      [239, 187, 191]]"

definition whiteSpaceLen :: "string \<Rightarrow> nat" where
  "whiteSpaceLen s =
     (case filter (\<lambda>w. take (length w) (map of_char s) = w) whiteSpaceSeqs of
        [] \<Rightarrow> 0
      | w # _ \<Rightarrow> min (length w) (length s))"

lemma whiteSpaceLen_le: "whiteSpaceLen s \<le> length s"
  by (simp add: whiteSpaceLen_def split: list.splits)

function skipWhiteSpace :: "string \<Rightarrow> string" where
  "skipWhiteSpace s = (if whiteSpaceLen s = 0 then s else skipWhiteSpace (drop (whiteSpaceLen s) s))"
  by pat_completeness auto
termination
proof (relation "measure length")
  show "wf (measure length)" by simp
next
  fix s :: string
  assume "whiteSpaceLen s \<noteq> 0"
  moreover have "whiteSpaceLen s \<le> length s" by (rule whiteSpaceLen_le)
  ultimately show "(drop (whiteSpaceLen s) s, s) \<in> measure length" by simp
qed

declare skipWhiteSpace.simps [simp del]

text \<open>
  \<open>parseInt(v, 10)\<close>: \<open>undefined\<close> reads as the text "undefined"; leading white space
  is skipped, one sign is accepted, then the longest run of decimal digits is read;
  no digit gives \<open>NaN\<close>.
\<close>

definition parseInt :: "string option \<Rightarrow> int option" where
  "parseInt v =
     (let s = (case v of None \<Rightarrow> ''undefined'' | Some x \<Rightarrow> x);
          t = skipWhiteSpace s;
          sign = (case t of c # _ \<Rightarrow> if c = CHR ''-'' then - 1 else 1 | [] \<Rightarrow> (1::int));
          u = (case t of c # r \<Rightarrow> if c = CHR ''-'' \<or> c = CHR ''+'' then r else t | [] \<Rightarrow> t);
          ds = takeWhile isDigit u
      in if ds = [] then None else Some (sign * int (digits_value ds)))"

text \<open>\<open>s.split(c)\<close> for a one-character separator: never empty.\<close>

fun split :: "char \<Rightarrow> string \<Rightarrow> string list" where
  "split c [] = [[]]"
| "split c (x # xs) =
     (if x = c then [] # split c xs
      else (case split c xs of p # ps \<Rightarrow> (x # p) # ps | [] \<Rightarrow> [[x]]))"


section \<open>Error classes (\<open>Error.ts\<close>)\<close>

text \<open>
  An \<open>ACPError\<close> object with the fields its constructor sets. The \<open>message\<close>,
  \<open>code\<close> and \<open>param\<close> fields hold the value handed to the constructor, which
  \<open>generate\<close> may take from a decoded response body.
\<close>

record acp_error =
  name :: string
  message :: js_value
  type :: string
  code :: js_value
  statusCode :: int
  param :: js_value
  requestId :: "string option"

text \<open>A default parameter value replaces \<open>undefined\<close> only.\<close>

definition default_arg :: "js_value \<Rightarrow> string \<Rightarrow> js_value" where
  "default_arg v d = (if v = JUndefined then JStr d else v)"

definition ACPError ::
  "js_value \<Rightarrow> string \<Rightarrow> js_value \<Rightarrow> int \<Rightarrow> js_value \<Rightarrow> string option \<Rightarrow> acp_error" where
  "ACPError msg ty cd sc pa rid =
     \<lparr>name = ''ACPError'', message = msg, type = ty, code = cd, statusCode = sc,
      param = pa, requestId = rid\<rparr>"

definition ACPAuthenticationError :: "js_value \<Rightarrow> string option \<Rightarrow> acp_error" where
  "ACPAuthenticationError msg rid =
     (ACPError (default_arg msg ''Authentication failed'') ''authentication_error''
        (JStr ''authentication_required'') 401 JUndefined rid)
     \<lparr>name := ''ACPAuthenticationError''\<rparr>"

definition ACPPermissionError :: "js_value \<Rightarrow> string option \<Rightarrow> acp_error" where
  "ACPPermissionError msg rid =
     (ACPError (default_arg msg ''Permission denied'') ''permission_error''
        (JStr ''permission_denied'') 403 JUndefined rid)
     \<lparr>name := ''ACPPermissionError''\<rparr>"

definition ACPNotFoundError :: "js_value \<Rightarrow> string option \<Rightarrow> acp_error" where
  "ACPNotFoundError msg rid =
     (ACPError (default_arg msg ''Resource not found'') ''not_found_error''
        (JStr ''resource_not_found'') 404 JUndefined rid)
     \<lparr>name := ''ACPNotFoundError''\<rparr>"

definition ACPInvalidRequestError ::
  "js_value \<Rightarrow> js_value \<Rightarrow> int \<Rightarrow> js_value \<Rightarrow> string option \<Rightarrow> acp_error" where
  "ACPInvalidRequestError msg cd sc pa rid =
     (ACPError (default_arg msg ''Invalid request'') ''invalid_request_error''
        (default_arg cd ''invalid_request'') sc pa rid)
     \<lparr>name := ''ACPInvalidRequestError''\<rparr>"

definition ACPAPIError :: "js_value \<Rightarrow> int \<Rightarrow> string option \<Rightarrow> acp_error" where
  "ACPAPIError msg sc rid =
     (ACPError (default_arg msg ''API error'') ''api_error'' (JStr ''internal_error'') sc
        JUndefined rid)
     \<lparr>name := ''ACPAPIError''\<rparr>"

definition ACPConnectionError :: "js_value \<Rightarrow> acp_error" where
  "ACPConnectionError msg =
     (ACPError (default_arg msg ''Network connection failed'') ''connection_error''
        (JStr ''network_error'') 0 JUndefined None)
     \<lparr>name := ''ACPConnectionError''\<rparr>"

definition ACPRateLimitError :: "js_value \<Rightarrow> string option \<Rightarrow> acp_error" where
  "ACPRateLimitError msg rid =
     (ACPError (default_arg msg ''Rate limit exceeded'') ''rate_limit_error''
        (JStr ''rate_limit_exceeded'') 429 JUndefined rid)
     \<lparr>name := ''ACPRateLimitError''\<rparr>"

definition ACPSignatureVerificationError :: "js_value \<Rightarrow> acp_error" where
  "ACPSignatureVerificationError msg =
     (ACPError (default_arg msg ''Webhook signature verification failed'')
        ''signature_verification_error'' (JStr ''invalid_signature'') 400 JUndefined None)
     \<lparr>name := ''ACPSignatureVerificationError''\<rparr>"

text \<open>\<open>ACPError.generate\<close>: the error class chosen from the status code.\<close>

definition generate :: "int \<Rightarrow> js_value \<Rightarrow> string option \<Rightarrow> acp_error" where
  "generate sc body rid =
     (let error = js_or (js_or (js_get_opt body ''error'') body) (JObj []);
          msg = js_or (js_get error ''message'')
                  (JStr (''Request failed with status '' @ toString sc));
          cd = js_or (js_get error ''code'') (JStr ''unknown_error'');
          pa = js_get error ''param''
      in if sc = 400 then ACPInvalidRequestError msg cd sc pa rid
         else if sc = 401 then ACPAuthenticationError msg rid
         else if sc = 403 then ACPPermissionError msg rid
         else if sc = 404 then ACPNotFoundError msg rid
         else if sc = 429 then ACPRateLimitError msg rid
         else if sc \<ge> 400 \<and> sc < 500 then ACPInvalidRequestError msg cd sc pa rid
         else ACPAPIError msg sc rid)"

text \<open>
  What a \<open>throw\<close> carries: an \<open>ACPError\<close> object, or another JavaScript error
  given by its \<open>name\<close> and \<open>message\<close> (\<open>TypeError\<close>, \<open>RangeError\<close>,
  \<open>SyntaxError\<close>, \<open>AbortError\<close>).
\<close>

datatype thrown = ACP acp_error | JsError string string


section \<open>Webhook verification (\<open>Webhooks.ts\<close>)\<close>

text \<open>
  The platform functions the module calls, taken as parameters: the HMAC-SHA256 digest
  bytes of \<open>crypto.createHmac('sha256', secret).update(data)\<close>, \<open>JSON.parse\<close>
  (\<open>None\<close> when it throws), the UTF-8 decoding of a Buffer, and the clock reading
  \<open>Date.now()\<close> in milliseconds.
\<close>

record 'e platform =
  createHmac_sha256 :: "string \<Rightarrow> string \<Rightarrow> string"
  JSON_parse :: "string \<Rightarrow> 'e option"
  Buffer_toString_utf8 :: "string \<Rightarrow> string"
  Date_now :: int

datatype payload = PString string | PBuffer string

record webhook_header =
  timestamp :: int
  signatures :: "string option list"

definition DEFAULT_TOLERANCE :: int where
  "DEFAULT_TOLERANCE = 300"

text \<open>The calls into the \<open>crypto\<close> module made by one verification, in order.\<close>

datatype crypto_call =
    CreateHmac string string
  | TimingSafeEqual "string option" "string option"

subsection \<open>\<open>secureCompare\<close>\<close>

definition Buffer_from :: "string option \<Rightarrow> thrown + string" where
  "Buffer_from v =
     (case v of
        None \<Rightarrow> Inl (JsError ''TypeError'' ''The first argument must be of type string or an instance of Buffer'')
      | Some s \<Rightarrow> Inr s)"

definition timingSafeEqual :: "string \<Rightarrow> string \<Rightarrow> thrown + bool" where
  "timingSafeEqual a b =
     (if length a \<noteq> length b
      then Inl (JsError ''RangeError'' ''Input buffers must have the same byte length'')
      else Inr (a = b))"

text \<open>The body of the \<open>try\<close> block of \<open>secureCompare\<close>.\<close>

definition secureCompare_try :: "string option \<Rightarrow> string option \<Rightarrow> thrown + bool" where
  "secureCompare_try a b =
     (case Buffer_from a of
        Inl e \<Rightarrow> Inl e
      | Inr x \<Rightarrow> (case Buffer_from b of
                    Inl e \<Rightarrow> Inl e
                  | Inr y \<Rightarrow> timingSafeEqual x y))"

definition secureCompare :: "string option \<Rightarrow> string option \<Rightarrow> thrown + bool" where
  "secureCompare a b =
     (case secureCompare_try a b of
        Inl e \<Rightarrow> Inr False
      | Inr r \<Rightarrow> Inr r)"

subsection \<open>\<open>computeSignature\<close>\<close>

definition hex_char :: "nat \<Rightarrow> char" where
  "hex_char d = ''0123456789abcdef'' ! d"

text \<open>\<open>digest('hex')\<close>: two lower-case hexadecimal digits for each byte.\<close>

definition hex :: "string \<Rightarrow> string" where
  "hex bs = concat (map (\<lambda>b. [hex_char (of_char b div 16), hex_char (of_char b mod 16)]) bs)"

definition computeSignature :: "'e platform \<Rightarrow> int \<Rightarrow> string \<Rightarrow> string \<Rightarrow> string" where
  "computeSignature P ts pl secret =
     (let signedPayload = toString ts @ ''.'' @ pl
      in hex (createHmac_sha256 P secret signedPayload))"

subsection \<open>\<open>parseHeader\<close>\<close>

text \<open>
  One round of the loop over the parts: \<open>[key, value] = part.split('=')\<close>, where
  \<open>value\<close> is \<open>undefined\<close> when the part holds no \<open>=\<close>. The loop state is the
  pair of \<open>timestamp\<close> (\<open>None\<close> for \<open>NaN\<close>) and \<open>signatures\<close>.
\<close>

definition parseHeader_part ::
  "int option \<times> string option list \<Rightarrow> string \<Rightarrow> int option \<times> string option list" where
  "parseHeader_part st part =
     (let kv = split CHR ''='' part;
          key = (case kv of k # _ \<Rightarrow> k | [] \<Rightarrow> []);
          val = (case kv of _ # v # _ \<Rightarrow> Some v | _ \<Rightarrow> None)
      in if key = ''t'' then (parseInt val, snd st)
         else if key = ''v1'' then (fst st, snd st @ [val])
         else st)"

definition parseHeader :: "string \<Rightarrow> thrown + webhook_header" where
  "parseHeader header =
     (if header = [] then
        Inl (ACP (ACPSignatureVerificationError (JStr ''No webhook signature header provided.'')))
      else
        (let parts = split CHR '','' header;
             st = foldl parseHeader_part (Some 0, []) parts
         in case fst st of
              None \<Rightarrow>
                Inl (ACP (ACPSignatureVerificationError
                  (JStr ''Unable to extract timestamp from webhook header.'')))
            | Some ts \<Rightarrow>
                if ts = 0 then
                  Inl (ACP (ACPSignatureVerificationError
                    (JStr ''Unable to extract timestamp from webhook header.'')))
                else if length (snd st) = 0 then
                  Inl (ACP (ACPSignatureVerificationError
                    (JStr ''Unable to extract signature from webhook header.'')))
                else Inr \<lparr>timestamp = ts, signatures = snd st\<rparr>))"

subsection \<open>\<open>constructEvent\<close> and \<open>verifySignature\<close>\<close>

definition payloadString :: "'e platform \<Rightarrow> payload \<Rightarrow> string" where
  "payloadString P pl = (case pl of PString s \<Rightarrow> s | PBuffer b \<Rightarrow> Buffer_toString_utf8 P b)"

text \<open>
  \<open>header.signatures.some((sig) => secureCompare(sig, expectedSignature))\<close>: stops at
  the first match; the list returned holds the comparisons made.
\<close>

fun signatures_some ::
  "string option list \<Rightarrow> string \<Rightarrow> crypto_call list \<times> (thrown + bool)" where
  "signatures_some [] expected = ([], Inr False)"
| "signatures_some (sig # sigs) expected =
     (case secureCompare sig (Some expected) of
        Inl e \<Rightarrow> ([TimingSafeEqual sig (Some expected)], Inl e)
      | Inr matched \<Rightarrow>
          if matched then ([TimingSafeEqual sig (Some expected)], Inr True)
          else (case signatures_some sigs expected of
                  (calls, r) \<Rightarrow> (TimingSafeEqual sig (Some expected) # calls, r)))"

definition tolerance_or_default :: "int option \<Rightarrow> int" where
  "tolerance_or_default tolerance =
     (case tolerance of None \<Rightarrow> DEFAULT_TOLERANCE | Some t \<Rightarrow> t)"

definition too_old_message :: "int \<Rightarrow> int \<Rightarrow> string" where
  "too_old_message timestampAge tol =
     ''Webhook timestamp too old. Event is '' @ toString timestampAge @
     '' seconds old, tolerance is '' @ toString tol @ '' seconds.''"

text \<open>
  \<open>constructEvent(payload, signature, secret, tolerance)\<close>: the result is the list of
  \<open>crypto\<close> calls made and either what is thrown or the decoded event.
\<close>

definition constructEvent ::
  "'e platform \<Rightarrow> payload \<Rightarrow> string \<Rightarrow> string \<Rightarrow> int option \<Rightarrow>
   crypto_call list \<times> (thrown + 'e)" where
  "constructEvent P pl signature secret tolerance =
     (let tol = tolerance_or_default tolerance;
          ps = payloadString P pl
      in case parseHeader signature of
           Inl e \<Rightarrow> ([], Inl e)
         | Inr header \<Rightarrow>
             (let timestampAge = Date_now P div 1000 - timestamp header
              in if timestampAge > tol then
                   ([], Inl (ACP (ACPSignatureVerificationError
                     (JStr (too_old_message timestampAge tol)))))
                 else
                   (let expectedSignature = computeSignature P (timestamp header) ps secret;
                        hm = CreateHmac secret (toString (timestamp header) @ ''.'' @ ps)
                    in case signatures_some (signatures header) expectedSignature of
                         (calls, Inl e) \<Rightarrow> (hm # calls, Inl e)
                       | (calls, Inr signatureMatches) \<Rightarrow>
                           if \<not> signatureMatches then
                             (hm # calls, Inl (ACP (ACPSignatureVerificationError
                               (JStr ''Webhook signature verification failed. No matching signature found.''))))
                           else
                             (case JSON_parse P ps of
                                Some event \<Rightarrow> (hm # calls, Inr event)
                              | None \<Rightarrow>
                                  (hm # calls, Inl (ACP (ACPSignatureVerificationError
                                    (JStr ''Failed to parse webhook payload as JSON.''))))))))"

text \<open>The body of the \<open>try\<close> block of \<open>verifySignature\<close>.\<close>

definition verifySignature_try ::
  "'e platform \<Rightarrow> payload \<Rightarrow> string \<Rightarrow> string \<Rightarrow> int option \<Rightarrow>
   crypto_call list \<times> (thrown + bool)" where
  "verifySignature_try P pl signature secret tolerance =
     (let tol = tolerance_or_default tolerance;
          ps = payloadString P pl
      in case parseHeader signature of
           Inl e \<Rightarrow> ([], Inl e)
         | Inr header \<Rightarrow>
             (let timestampAge = Date_now P div 1000 - timestamp header
              in if timestampAge > tol then ([], Inr False)
                 else
                   (let expectedSignature = computeSignature P (timestamp header) ps secret;
                        hm = CreateHmac secret (toString (timestamp header) @ ''.'' @ ps)
                    in case signatures_some (signatures header) expectedSignature of
                         (calls, r) \<Rightarrow> (hm # calls, r))))"

text \<open>\<open>verifySignature\<close>: whatever the \<open>try\<close> block throws becomes \<open>false\<close>.\<close>

definition verifySignature ::
  "'e platform \<Rightarrow> payload \<Rightarrow> string \<Rightarrow> string \<Rightarrow> int option \<Rightarrow>
   crypto_call list \<times> (thrown + bool)" where
  "verifySignature P pl signature secret tolerance =
     (case verifySignature_try P pl signature secret tolerance of
        (calls, Inl e) \<Rightarrow> (calls, Inr False)
      | (calls, Inr r) \<Rightarrow> (calls, Inr r))"

subsection \<open>\<open>generateTestHeaderString\<close>\<close>

record test_header_opts =
  opts_payload :: string
  opts_secret :: string
  opts_timestamp :: "int option"

definition generateTestHeaderString :: "'e platform \<Rightarrow> test_header_opts \<Rightarrow> string" where
  "generateTestHeaderString P opts =
     (let ts = (case opts_timestamp opts of None \<Rightarrow> Date_now P div 1000 | Some t \<Rightarrow> t);
          signature = computeSignature P ts (opts_payload opts) (opts_secret opts)
      in ''t='' @ toString ts @ '',v1='' @ signature)"

section \<open>HTTP client (\<open>FetchHttpClient.ts\<close>)\<close>

record http_client_config =
  apiKey :: string
  apiVersion :: string
  timeout :: int
  maxNetworkRetries :: int
  host :: string

record request_options =
  idempotencyKey :: "string option"
  opt_timeout :: "int option"
  opt_maxNetworkRetries :: "int option"

text \<open>A number handed to \<open>setTimeout\<close>: a real, or \<open>NaN\<close>.\<close>

datatype js_number = Num real | NaN

text \<open>
  A response as the client reads it: the status, the two headers it looks up
  (\<open>None\<close> when \<open>headers.get\<close> gives \<open>null\<close>) and the outcome of
  \<open>response.json()\<close> (\<open>Inl\<close> the name and message of the error it rejects with).
\<close>

record http_response =
  status :: int
  header_x_request_id :: "string option"
  header_retry_after :: "string option"
  json :: "(string \<times> string) + js_value"

definition ok :: "http_response \<Rightarrow> bool" where
  "ok response = (200 \<le> status response \<and> status response \<le> 299)"

text \<open>\<open>fetch\<close> resolves with a response or rejects with an error (name, message).\<close>

datatype fetch_result = Resolved http_response | Rejected string string

text \<open>The request handed to \<open>fetch\<close>; \<open>verb\<close> is its \<open>method\<close> option.\<close>

record http_request =
  url :: string
  verb :: string
  headers :: "(string \<times> string) list"
  body :: "string option"

datatype effect = Fetch http_request | Sleep js_number

text \<open>
  What the client takes from its surroundings: the outcome of the k-th call of
  \<open>fetch\<close>, the k-th draw of \<open>Math.random()\<close>, the k-th reading of
  \<open>Date.now()\<close>, the base-36 text of a number and \<open>JSON.stringify\<close>.
\<close>

record net_env =
  net_fetch :: "nat \<Rightarrow> http_request \<Rightarrow> fetch_result"
  net_random :: "nat \<Rightarrow> real"
  net_now :: "nat \<Rightarrow> int"
  net_toString36 :: "real \<Rightarrow> string"
  net_stringify :: "js_value \<Rightarrow> string"

text \<open>
  The variables of one \<open>makeRequest\<close> call: the \<open>headers\<close> object, \<open>lastError\<close>,
  the effects so far, and how many fetches, random draws and clock readings were made.
\<close>

record loop_state =
  headers_obj :: "(string \<times> string) list"
  lastError :: "thrown option"
  effects :: "effect list"
  fetches :: nat
  draws :: nat
  reads :: nat

definition userAgent :: string where
  "userAgent = ''acp-node/0.1.0''"

text \<open>\<open>getBackoffMs(attempt)\<close>, given the draw that its \<open>Math.random()\<close> returns.\<close>

definition jitter :: "real \<Rightarrow> real" where
  "jitter random = random * 0.5 + 0.75"

definition getBackoffMs :: "nat \<Rightarrow> real \<Rightarrow> real" where
  "getBackoffMs attempt random =
     (let baseDelay = 2 ^ attempt * 500
      in min (baseDelay * jitter random) 30000)"

text \<open>
  \<open>generateRequestId()\<close>, given the clock reading and the base-36 text of the draw;
  \<open>substring(2, 11)\<close> keeps at most nine characters from index 2.
\<close>

definition generateRequestId :: "int \<Rightarrow> string \<Rightarrow> string" where
  "generateRequestId now random36 = ''req_'' @ toString now @ ''_'' @ take 9 (drop 2 random36)"

text \<open>\<open>await this.sleep(this.getBackoffMs(attempt))\<close>.\<close>

definition sleep_backoff :: "net_env \<Rightarrow> nat \<Rightarrow> loop_state \<Rightarrow> loop_state" where
  "sleep_backoff E attempt st =
     st\<lparr>effects := effects st @ [Sleep (Num (getBackoffMs attempt (net_random E (draws st))))],
        draws := draws st + 1\<rparr>"

definition responseRequestId :: "http_response \<Rightarrow> string \<Rightarrow> string" where
  "responseRequestId response reqId =
     (case header_x_request_id response of
        None \<Rightarrow> reqId
      | Some s \<Rightarrow> if s = [] then reqId else s)"

definition errorBody :: "http_response \<Rightarrow> js_value" where
  "errorBody response = (case json response of Inl _ \<Rightarrow> JObj [] | Inr v \<Rightarrow> v)"

text \<open>\<open>parseInt(response.headers.get('Retry-After') || '1', 10)\<close>.\<close>

definition retryAfter :: "http_response \<Rightarrow> int option" where
  "retryAfter response =
     parseInt (Some (case header_retry_after response of
                       None \<Rightarrow> ''1''
                     | Some s \<Rightarrow> if s = [] then ''1'' else s))"

definition times_1000 :: "int option \<Rightarrow> js_number" where
  "times_1000 n = (case n of None \<Rightarrow> NaN | Some k \<Rightarrow> Num (real_of_int k * 1000))"

datatype try_outcome = TReturn js_value | TContinue

text \<open>\<open>params ? JSON.stringify(params) : undefined\<close>.\<close>

definition request_body :: "net_env \<Rightarrow> js_value option \<Rightarrow> string option" where
  "request_body E params =
     (case params of
        None \<Rightarrow> None
      | Some v \<Rightarrow> if truthy v then Some (net_stringify E v) else None)"

text \<open>
  The \<open>try\<close> block of one round of the loop. The abort timer is not a step of its
  own: when it fires, \<open>fetch\<close> rejects with an error named \<open>AbortError\<close>.
\<close>

definition try_block ::
  "net_env \<Rightarrow> string \<Rightarrow> string \<Rightarrow> js_value option \<Rightarrow> int \<Rightarrow> nat \<Rightarrow> string \<Rightarrow>
   loop_state \<Rightarrow> loop_state \<times> (thrown + try_outcome)" where
  "try_block E u m params maxRetries attempt reqId st =
     (let req = \<lparr>url = u, verb = m, headers = headers_obj st,
                 body = request_body E params\<rparr>;
          st1 = st\<lparr>effects := effects st @ [Fetch req], fetches := fetches st + 1\<rparr>
      in case net_fetch E (fetches st) req of
           Rejected n msg \<Rightarrow> (st1, Inl (JsError n msg))
         | Resolved response \<Rightarrow>
             (let rid = responseRequestId response reqId
              in if \<not> ok response then
                   (if status response \<ge> 400 \<and> status response < 500 \<and> status response \<noteq> 429
                    then (st1, Inl (ACP (generate (status response) (errorBody response) (Some rid))))
                    else if status response = 429 then
                      (if int attempt < maxRetries
                       then (st1\<lparr>effects := effects st1 @ [Sleep (times_1000 (retryAfter response))]\<rparr>,
                             Inr TContinue)
                       else
                         (let errorMessage =
                                js_get_opt (js_get_opt (errorBody response) ''error'') ''message''
                          in (st1, Inl (ACP (ACPRateLimitError errorMessage (Some rid))))))
                    else if int attempt < maxRetries
                    then (sleep_backoff E attempt st1, Inr TContinue)
                    else (st1, Inl (ACP (generate (status response) (errorBody response) (Some rid)))))
                 else
                   (case json response of
                      Inl (n, msg) \<Rightarrow> (st1, Inl (JsError n msg))
                    | Inr data \<Rightarrow> (st1, Inr (TReturn data)))))"

text \<open>
  How one round of the loop ends: the call returns or throws (\<open>Done\<close>), or the loop
  goes on to \<open>attempt++\<close> (\<open>Next\<close>, by \<open>continue\<close> or by reaching the end of the
  \<open>catch\<close> block).
\<close>

datatype round_outcome = Done "acp_error + js_value" | Next

text \<open>The \<open>catch\<close> block.\<close>

definition catch_block ::
  "net_env \<Rightarrow> int \<Rightarrow> int \<Rightarrow> nat \<Rightarrow> thrown \<Rightarrow> loop_state \<Rightarrow> loop_state \<times> round_outcome" where
  "catch_block E tmo maxRetries attempt error st =
     (let st1 = st\<lparr>lastError := Some error\<rparr>
      in case error of
           ACP e \<Rightarrow> (st1, Done (Inl e))
         | JsError n msg \<Rightarrow>
             if n = ''AbortError'' then
               (if int attempt < maxRetries then (sleep_backoff E attempt st1, Next)
                else (st1, Done (Inl (ACPConnectionError
                        (JStr (''Request timeout after '' @ toString tmo @ ''ms''))))))
             else if int attempt < maxRetries then (sleep_backoff E attempt st1, Next)
             else (st1, Next))"

text \<open>One round: a fresh request id is stored in the headers, then \<open>try\<close> and \<open>catch\<close>.\<close>

definition attempt_body ::
  "net_env \<Rightarrow> string \<Rightarrow> string \<Rightarrow> js_value option \<Rightarrow> int \<Rightarrow> int \<Rightarrow> nat \<Rightarrow>
   loop_state \<Rightarrow> loop_state \<times> round_outcome" where
  "attempt_body E u m params tmo maxRetries attempt st =
     (let reqId = generateRequestId (net_now E (reads st))
                        (net_toString36 E (net_random E (draws st)));
          st1 = st\<lparr>headers_obj := AList.update ''X-Request-Id'' reqId (headers_obj st),
                   draws := draws st + 1, reads := reads st + 1\<rparr>
      in case try_block E u m params maxRetries attempt reqId st1 of
           (st2, Inr (TReturn data)) \<Rightarrow> (st2, Done (Inr data))
         | (st2, Inr TContinue) \<Rightarrow> (st2, Next)
         | (st2, Inl error) \<Rightarrow> catch_block E tmo maxRetries attempt error st2)"

text \<open>\<open>lastError?.message || 'Unknown error'\<close>.\<close>

definition lastError_message :: "thrown option \<Rightarrow> string" where
  "lastError_message le =
     (case le of
        None \<Rightarrow> ''Unknown error''
      | Some (JsError n msg) \<Rightarrow> if msg = [] then ''Unknown error'' else msg
      | Some (ACP e) \<Rightarrow>
          (case message e of
             JStr msg \<Rightarrow> if msg = [] then ''Unknown error'' else msg
           | _ \<Rightarrow> ''Unknown error''))"

text \<open>The \<open>for\<close> loop from \<open>attempt\<close> on, and the \<open>throw\<close> after it.\<close>

function makeRequest_loop ::
  "net_env \<Rightarrow> string \<Rightarrow> string \<Rightarrow> js_value option \<Rightarrow> int \<Rightarrow> int \<Rightarrow> nat \<Rightarrow>
   loop_state \<Rightarrow> loop_state \<times> (acp_error + js_value)" where
  "makeRequest_loop E u m params tmo maxRetries attempt st =
     (if int attempt \<le> maxRetries then
        (case attempt_body E u m params tmo maxRetries attempt st of
           (st', Done r) \<Rightarrow> (st', r)
         | (st', Next) \<Rightarrow> makeRequest_loop E u m params tmo maxRetries (attempt + 1) st')
      else
        (st, Inl (ACPConnectionError
                    (JStr (''Request failed after '' @ toString (maxRetries + 1) @
                           '' attempts: '' @ lastError_message (lastError st))))))"
  by pat_completeness auto
termination
  by (relation "measure (\<lambda>(E, u, m, params, tmo, maxRetries, attempt, st).
                 nat (maxRetries + 1 - int attempt))") auto

declare makeRequest_loop.simps [simp del]

definition makeRequest ::
  "net_env \<Rightarrow> http_client_config \<Rightarrow> string \<Rightarrow> string \<Rightarrow> js_value option \<Rightarrow>
   request_options option \<Rightarrow> loop_state \<times> (acp_error + js_value)" where
  "makeRequest E config m path params options =
     (let u = ''https://'' @ host config @ ''/v1'' @ path;
          tmo = (case Option.bind options opt_timeout of
                   None \<Rightarrow> timeout config | Some t \<Rightarrow> t);
          maxRetries = (case Option.bind options opt_maxNetworkRetries of
                          None \<Rightarrow> maxNetworkRetries config | Some r \<Rightarrow> r);
          hs = [(''Content-Type'', ''application/json''),
                (''Authorization'', ''Bearer '' @ apiKey config),
                (''ACP-Version'', apiVersion config),
                (''User-Agent'', userAgent)];
          hs' = (case Option.bind options idempotencyKey of
                   None \<Rightarrow> hs
                 | Some k \<Rightarrow> if k = [] then hs else AList.update ''Idempotency-Key'' k hs)
      in makeRequest_loop E u m params tmo maxRetries 0
           \<lparr>headers_obj = hs', lastError = None, effects = [], fetches = 0, draws = 0,
            reads = 0\<rparr>)"

text \<open>The requests of the fetches among a list of effects, in order.\<close>

fun fetch_requests :: "effect list \<Rightarrow> http_request list" where
  "fetch_requests [] = []"
| "fetch_requests (Fetch r # es) = r # fetch_requests es"
| "fetch_requests (Sleep d # es) = fetch_requests es"

text \<open>
  The request id and the request of the round that starts in state \<open>st\<close>, and the
  state once that request has been handed to \<open>fetch\<close>.
\<close>

definition round_requestId :: "net_env \<Rightarrow> loop_state \<Rightarrow> string" where
  "round_requestId E st =
     generateRequestId (net_now E (reads st)) (net_toString36 E (net_random E (draws st)))"

definition round_request ::
  "net_env \<Rightarrow> string \<Rightarrow> string \<Rightarrow> js_value option \<Rightarrow> loop_state \<Rightarrow> http_request" where
  "round_request E u m params st =
     \<lparr>url = u, verb = m,
      headers = AList.update ''X-Request-Id'' (round_requestId E st) (headers_obj st),
      body = request_body E params\<rparr>"

definition after_fetch ::
  "net_env \<Rightarrow> string \<Rightarrow> string \<Rightarrow> js_value option \<Rightarrow> loop_state \<Rightarrow> loop_state" where
  "after_fetch E u m params st =
     st\<lparr>headers_obj := AList.update ''X-Request-Id'' (round_requestId E st) (headers_obj st),
        draws := draws st + 1,
        reads := reads st + 1,
        effects := effects st @ [Fetch (round_request E u m params st)],
        fetches := fetches st + 1\<rparr>"


section \<open>Concrete inputs\<close>

text \<open>
  A small keyed digest standing in for HMAC-SHA256 where a theorem is instantiated at a
  concrete input; no theorem below depends on which digest the platform provides.
\<close>

definition toy_hmac :: "string \<Rightarrow> string \<Rightarrow> string" where
  "toy_hmac key data = key @ data"

definition test_platform :: "string platform" where
  "test_platform =
     \<lparr>createHmac_sha256 = toy_hmac,
      JSON_parse = (\<lambda>s. if s = ''{}'' then Some s else None),
      Buffer_toString_utf8 = (\<lambda>b. b),
      Date_now = 1700000000999\<rparr>"

definition test_config :: http_client_config where
  "test_config =
     \<lparr>apiKey = ''sk_test'', apiVersion = ''2026-01-16'', timeout = 80000,
      maxNetworkRetries = 2, host = ''api.agentic-commerce.com''\<rparr>"

definition test_response :: "int \<Rightarrow> string option \<Rightarrow> http_response" where
  "test_response sc ra =
     \<lparr>status = sc, header_x_request_id = None, header_retry_after = ra,
      json = Inr (JObj [(''error'', JObj [(''message'', JStr ''failed'')])])\<rparr>"

text \<open>
  Surroundings in which every fetch is answered by the same response, every draw is
  one half (\<open>0.i\<close> in base 36) and the clock advances by one second per reading.
\<close>

definition test_env :: "int \<Rightarrow> string option \<Rightarrow> net_env" where
  "test_env sc ra =
     \<lparr>net_fetch = (\<lambda>k req. Resolved (test_response sc ra)),
      net_random = (\<lambda>k. 1 / 2),
      net_now = (\<lambda>k. 1700000000000 + 1000 * int k),
      net_toString36 = (\<lambda>r. ''0.i''),
      net_stringify = (\<lambda>v. ''{}'')\<rparr>"

text \<open>The same with a clock that gives the same reading every time.\<close>

definition frozen_clock_env :: "int \<Rightarrow> string option \<Rightarrow> net_env" where
  "frozen_clock_env sc ra = (test_env sc ra)\<lparr>net_now := (\<lambda>k. 1700000000000)\<rparr>"

definition test_options :: "string \<Rightarrow> request_options" where
  "test_options k =
     \<lparr>idempotencyKey = Some k, opt_timeout = None, opt_maxNetworkRetries = None\<rparr>"

text \<open>The loop variables before the first round, with one header set.\<close>

definition test_state :: loop_state where
  "test_state =
     \<lparr>headers_obj = [(''Content-Type'', ''application/json'')], lastError = None,
      effects = [], fetches = 0, draws = 0, reads = 0\<rparr>"

section \<open>Facts about strings and numbers\<close>

lemmas webhook_eval =
  toString_def digit_char_def digits.simps parseInt_def skipWhiteSpace.simps whiteSpaceLen_def
  whiteSpaceSeqs_def isDigit_def digits_value_def digit_value_def parseHeader_def
  parseHeader_part_def hex_def hex_char_def computeSignature_def test_platform_def toy_hmac_def
  secureCompare_def secureCompare_try_def Buffer_from_def timingSafeEqual_def
  constructEvent_def verifySignature_def verifySignature_try_def tolerance_or_default_def
  DEFAULT_TOLERANCE_def payloadString_def too_old_message_def generateTestHeaderString_def
  ACPSignatureVerificationError_def ACPError_def default_arg_def Let_def

lemma digit_char_props:
  assumes "d < 10"
  shows "isDigit (digit_char d)" and "digit_value (digit_char d) = d"
proof -
  from assms have "d \<in> {0, 1, 2, 3, 4, 5, 6, 7, 8, 9}" by auto
  then show "isDigit (digit_char d)" and "digit_value (digit_char d) = d"
    by (auto simp: digit_char_def isDigit_def digit_value_def)
qed

lemma isDigit_not_special:
  assumes "isDigit c"
  shows "c \<noteq> CHR '',''" and "c \<noteq> CHR ''=''" and "c \<noteq> CHR ''-''" and "c \<noteq> CHR ''+''"
    and "c \<noteq> CHR ''_''"
  using assms by (auto simp: isDigit_def)

lemma digits_nonempty: "digits n \<noteq> []"
  by (subst digits.simps) simp

lemma digits_all_isDigit: "c \<in> set (digits n) \<Longrightarrow> isDigit c"
proof (induction n arbitrary: c rule: digits.induct)
  case (1 n)
  show ?case
  proof (cases "n < 10")
    case True
    with "1.prems" show ?thesis
      by (subst (asm) digits.simps) (simp add: digit_char_props)
  next
    case False
    with "1.prems" have "c \<in> set (digits (n div 10)) \<or> c = digit_char (n mod 10)"
      by (subst (asm) digits.simps) auto
    with False "1.IH" show ?thesis
      by (auto simp: digit_char_props)
  qed
qed

lemma digits_value_snoc: "digits_value (ds @ [c]) = digits_value ds * 10 + digit_value c"
  by (simp add: digits_value_def)

lemma digits_value_digits: "digits_value (digits n) = n"
proof (induction n rule: digits.induct)
  case (1 n)
  show ?case
  proof (cases "n < 10")
    case True
    then show ?thesis
      by (subst digits.simps) (simp add: digits_value_def digit_char_props)
  next
    case False
    with "1.IH" have "digits_value (digits (n div 10)) = n div 10" by simp
    with False show ?thesis
      by (subst digits.simps) (simp add: digits_value_snoc digit_char_props)
  qed
qed

lemma whiteSpaceLen_Cons:
  assumes "(of_char c :: nat) \<notin> {9, 10, 11, 12, 13, 32, 194, 225, 226, 227, 239}"
  shows "whiteSpaceLen (c # r) = 0"
  using assms by (simp add: whiteSpaceLen_def whiteSpaceSeqs_def)

lemma skipWhiteSpace_digit: "isDigit c \<or> c = CHR ''-'' \<Longrightarrow> skipWhiteSpace (c # r) = c # r"
  by (subst skipWhiteSpace.simps) (auto simp: whiteSpaceLen_Cons isDigit_def)

lemma takeWhile_digits: "takeWhile isDigit (digits n) = digits n"
  by (simp add: digits_all_isDigit)

lemma parseInt_digits: "parseInt (Some (digits n)) = Some (int n)"
proof -
  obtain c r where cr: "digits n = c # r"
    using digits_nonempty [of n] by (cases "digits n") auto
  then have dig: "isDigit c"
    using digits_all_isDigit [of c n] by simp
  have skip: "skipWhiteSpace (digits n) = digits n"
    using dig by (simp add: cr skipWhiteSpace_digit)
  have sign: "(case digits n of c # _ \<Rightarrow> if c = CHR ''-'' then - 1 else 1 | [] \<Rightarrow> (1::int)) = 1"
    using isDigit_not_special [OF dig] by (simp add: cr)
  have rest: "(case digits n of c # r \<Rightarrow> if c = CHR ''-'' \<or> c = CHR ''+'' then r else digits n
                | [] \<Rightarrow> digits n) = digits n"
    using isDigit_not_special [OF dig] by (simp add: cr)
  show ?thesis
    unfolding parseInt_def Let_def option.case skip sign rest
    by (simp add: takeWhile_digits digits_nonempty digits_value_digits)
qed

lemma parseInt_minus_digits: "parseInt (Some (CHR ''-'' # digits n)) = Some (- int n)"
  by (simp add: parseInt_def skipWhiteSpace_digit Let_def takeWhile_digits digits_nonempty
      digits_value_digits)

lemma parseInt_toString: "parseInt (Some (toString n)) = Some n"
  by (simp add: toString_def parseInt_digits parseInt_minus_digits)

lemma toString_chars: "c \<in> set (toString n) \<Longrightarrow> isDigit c \<or> c = CHR ''-''"
  by (auto simp: toString_def dest: digits_all_isDigit split: if_splits)

lemma toString_no_sep:
  "CHR '','' \<notin> set (toString n)" "CHR ''='' \<notin> set (toString n)" "CHR ''_'' \<notin> set (toString n)"
  using toString_chars [of "CHR '',''" n] toString_chars [of "CHR ''=''" n]
    toString_chars [of "CHR ''_''" n]
  by (auto simp: isDigit_def)

lemma split_no_sep: "c \<notin> set s \<Longrightarrow> split c s = [s]"
  by (induction s) auto

lemma split_at_sep: "c \<notin> set a \<Longrightarrow> split c (a @ c # b) = a # split c b"
  by (induction a) auto

lemma hex_char_in: "d < 16 \<Longrightarrow> hex_char d \<in> set ''0123456789abcdef''"
  unfolding hex_char_def by (rule nth_mem) simp

lemma hex_chars: "c \<in> set (hex bs) \<Longrightarrow> c \<in> set ''0123456789abcdef''"
proof -
  assume "c \<in> set (hex bs)"
  then obtain b where "c = hex_char (of_char b div 16) \<or> c = hex_char (of_char b mod 16)"
    by (auto simp: hex_def)
  moreover have "(of_char b :: nat) div 16 < 16"
  proof -
    have "(of_char b :: nat) mod 256 < 256" by (rule mod_less_divisor) simp
    then have "(of_char b :: nat) < 256" by simp
    then show ?thesis by arith
  qed
  moreover have "(of_char b :: nat) mod 16 < 16" by simp
  ultimately show ?thesis
    using hex_char_in by metis
qed

lemma hex_no_sep: "CHR '','' \<notin> set (hex bs)" "CHR ''='' \<notin> set (hex bs)"
  using hex_chars [of "CHR '',''" bs] hex_chars [of "CHR ''=''" bs] by auto

section \<open>Webhook verification\<close>

lemma secureCompare_total: "secureCompare a b = Inr (a \<noteq> None \<and> a = b)"
  by (auto simp: secureCompare_def secureCompare_try_def Buffer_from_def timingSafeEqual_def
      split: option.splits)

lemma signatures_some_snd: "snd (signatures_some sigs e) = Inr (Some e \<in> set sigs)"
  by (induction sigs) (auto simp: secureCompare_total split: prod.splits)

lemma parseHeader_generated:
  assumes "ts \<noteq> 0"
  shows "parseHeader (''t='' @ toString ts @ '',v1='' @ hex bs) =
           Inr \<lparr>timestamp = ts, signatures = [Some (hex bs)]\<rparr>"
proof -
  have s1: "split CHR '','' (''t='' @ toString ts @ '',v1='' @ hex bs) =
              [''t='' @ toString ts, ''v1='' @ hex bs]"
  proof -
    have "CHR '','' \<notin> set (''t='' @ toString ts)" using toString_no_sep by simp
    moreover have "CHR '','' \<notin> set (''v1='' @ hex bs)" using hex_no_sep by simp
    ultimately show ?thesis
      using split_at_sep [of "CHR '',''" "''t='' @ toString ts" "''v1='' @ hex bs"]
      by (simp add: split_no_sep del: split.simps)
  qed
  have s2: "split CHR ''='' (''t='' @ toString ts) = [''t'', toString ts]"
    using split_at_sep [of "CHR ''=''" "''t''" "toString ts"] toString_no_sep
    by (simp add: split_no_sep del: split.simps)
  have s3: "split CHR ''='' (''v1='' @ hex bs) = [''v1'', hex bs]"
    using split_at_sep [of "CHR ''=''" "''v1''" "hex bs"] hex_no_sep
    by (simp add: split_no_sep del: split.simps)
  have p1: "parseHeader_part (Some 0, []) (''t='' @ toString ts) = (Some ts, [])"
    unfolding parseHeader_part_def s2 by (simp add: parseInt_toString)
  have p2: "parseHeader_part (Some ts, []) (''v1='' @ hex bs) = (Some ts, [Some (hex bs)])"
    unfolding parseHeader_part_def s3 by simp
  have "foldl parseHeader_part (Some 0, []) [''t='' @ toString ts, ''v1='' @ hex bs] =
          (Some ts, [Some (hex bs)])"
    using p1 p2 by (simp del: append.simps)
  then show ?thesis
    unfolding parseHeader_def s1 using assms by simp
qed

lemma parseHeader_error_not_decode:
  "parseHeader signature = Inl e \<Longrightarrow>
     e \<noteq> ACP (ACPSignatureVerificationError (JStr ''Failed to parse webhook payload as JSON.''))"
  by (auto simp: parseHeader_def Let_def ACPSignatureVerificationError_def ACPError_def
      default_arg_def split: if_splits option.splits)

text \<open>
  C7. \<open>secureCompare\<close> never throws, whatever its arguments (a missing signature value,
  \<open>undefined\<close>, included); on two strings of different lengths it returns \<open>false\<close>.
\<close>

theorem secureCompare_never_throws:
  "(\<exists>r. secureCompare x y = Inr r) \<and>
   (length a \<noteq> length b \<longrightarrow> secureCompare (Some a) (Some b) = Inr False)"
  by (auto simp: secureCompare_def secureCompare_try_def Buffer_from_def timingSafeEqual_def
      split: option.splits sum.splits)

theorem secureCompare_never_throws_witness:
  "length ''abc'' \<noteq> length ''abcdef'' \<and> secureCompare (Some ''abc'') (Some ''abcdef'') = Inr False"
  using secureCompare_never_throws [of "Some ''abc''" "Some ''abcdef''" "''abc''" "''abcdef''"]
  by simp





text \<open>
  C9. \<open>verifySignature\<close> never throws; it returns \<open>true\<close> exactly when the header
  parses, the timestamp is within the tolerance and some signature of the header matches
  the expected one, and that is exactly when \<open>constructEvent\<close> on the same arguments
  and clock reading either returns the event or fails at decoding the payload as JSON.
\<close>

theorem verifySignature_agrees_with_constructEvent:
  "(\<exists>b. snd (verifySignature P pl signature secret tolerance) = Inr b)
   \<and> (snd (verifySignature P pl signature secret tolerance) = Inr True \<longleftrightarrow>
        (\<exists>header. parseHeader signature = Inr header
           \<and> \<not> Date_now P div 1000 - timestamp header > tolerance_or_default tolerance
           \<and> (\<exists>sig \<in> set (signatures header).
                 secureCompare sig (Some (computeSignature P (timestamp header)
                                            (payloadString P pl) secret)) = Inr True)))
   \<and> (snd (verifySignature P pl signature secret tolerance) = Inr True \<longleftrightarrow>
        (case snd (constructEvent P pl signature secret tolerance) of
           Inr event \<Rightarrow> True
         | Inl e \<Rightarrow> e = ACP (ACPSignatureVerificationError
                               (JStr ''Failed to parse webhook payload as JSON.''))))"
proof (cases "parseHeader signature")
  case (Inl e)
  then show ?thesis
    using parseHeader_error_not_decode [OF Inl]
    by (auto simp: verifySignature_def verifySignature_try_def constructEvent_def Let_def)
next
  case (Inr header)
  show ?thesis
  proof (cases "Date_now P div 1000 - timestamp header > tolerance_or_default tolerance")
    case True
    with Inr show ?thesis
      by (auto simp: verifySignature_def verifySignature_try_def constructEvent_def Let_def
          too_old_message_def ACPSignatureVerificationError_def ACPError_def default_arg_def)
  next
    case False
    obtain calls r where sm: "signatures_some (signatures header)
        (computeSignature P (timestamp header) (payloadString P pl) secret) = (calls, r)"
      by (cases "signatures_some (signatures header)
        (computeSignature P (timestamp header) (payloadString P pl) secret)")
    have r: "r = Inr (Some (computeSignature P (timestamp header) (payloadString P pl) secret)
                        \<in> set (signatures header))"
      using signatures_some_snd [of "signatures header"
          "computeSignature P (timestamp header) (payloadString P pl) secret"] sm by simp
    have ex: "(\<exists>sig \<in> set (signatures header).
                 secureCompare sig (Some (computeSignature P (timestamp header)
                                            (payloadString P pl) secret)) = Inr True)
              \<longleftrightarrow> Some (computeSignature P (timestamp header) (payloadString P pl) secret)
                        \<in> set (signatures header)"
      by (auto simp: secureCompare_total)
    from Inr False sm r ex show ?thesis
      by (auto simp: verifySignature_def verifySignature_try_def constructEvent_def Let_def
          ACPSignatureVerificationError_def ACPError_def default_arg_def split: option.splits)
  qed
qed

theorem verifySignature_agrees_with_constructEvent_witness:
  "snd (verifySignature test_platform (PString ''{}'')
          ''t=1700000000,v1=6b313730303030303030302e7b7d'' ''k'' None) = Inr True
   \<and> snd (constructEvent test_platform (PString ''{}'')
          ''t=1700000000,v1=6b313730303030303030302e7b7d'' ''k'' None) = Inr ''{}''
   \<and> snd (verifySignature test_platform (PString ''{}'')
          ''t=1700000000,v1=00'' ''k'' None) = Inr False"
proof -
  have c: "snd (constructEvent test_platform (PString ''{}'')
          ''t=1700000000,v1=6b313730303030303030302e7b7d'' ''k'' None) = Inr ''{}''"
    by (simp add: webhook_eval)
  have d: "snd (constructEvent test_platform (PString ''{}'')
          ''t=1700000000,v1=00'' ''k'' None) =
          Inl (ACP (ACPSignatureVerificationError
            (JStr ''Webhook signature verification failed. No matching signature found.'')))"
    by (simp add: webhook_eval)
  have n: "ACP (ACPSignatureVerificationError
            (JStr ''Webhook signature verification failed. No matching signature found.'')) \<noteq>
           ACP (ACPSignatureVerificationError (JStr ''Failed to parse webhook payload as JSON.''))"
    by (simp add: ACPSignatureVerificationError_def ACPError_def default_arg_def)
  show ?thesis
    using verifySignature_agrees_with_constructEvent [of test_platform "PString ''{}''"
        "''t=1700000000,v1=6b313730303030303030302e7b7d''" "''k''" None]
      verifySignature_agrees_with_constructEvent [of test_platform "PString ''{}''"
        "''t=1700000000,v1=00''" "''k''" None] c d n
    by auto
qed

text \<open>
  C1 fails at timestamp 0: the generated header is \<open>t=0,...\<close>, and \<open>parseHeader\<close>
  takes a zero timestamp for a missing one, so verification returns \<open>false\<close> although
  the age is within the tolerance.
\<close>

theorem roundtrip_fails_at_timestamp_zero:
  "isSafeInteger 0
   \<and> Date_now test_platform div 1000 - 0 \<le> tolerance_or_default (Some 2000000000)
   \<and> generateTestHeaderString test_platform
        \<lparr>opts_payload = ''{}'', opts_secret = ''k'', opts_timestamp = Some 0\<rparr> = ''t=0,v1=6b302e7b7d''
   \<and> snd (verifySignature test_platform (PString ''{}'')
            (generateTestHeaderString test_platform
               \<lparr>opts_payload = ''{}'', opts_secret = ''k'', opts_timestamp = Some 0\<rparr>)
            ''k'' (Some 2000000000)) = Inr False"
  by (simp add: webhook_eval isSafeInteger_def)

text \<open>
  C1, amended. For every payload string, secret, tolerance and every non-zero safe
  integer timestamp whose age is at most the tolerance, \<open>verifySignature\<close> returns
  \<open>true\<close> on the header that \<open>generateTestHeaderString\<close> produces for that payload,
  secret and timestamp.
\<close>

theorem generated_header_verifies:
  assumes "ts \<noteq> 0"
    and "isSafeInteger ts"
    and "Date_now P div 1000 - ts \<le> tolerance_or_default tolerance"
  shows "snd (verifySignature P (PString pl)
           (generateTestHeaderString P
              \<lparr>opts_payload = pl, opts_secret = secret, opts_timestamp = Some ts\<rparr>)
           secret tolerance) = Inr True"
proof -
  let ?sig = "computeSignature P ts pl secret"
  have hdr: "generateTestHeaderString P
               \<lparr>opts_payload = pl, opts_secret = secret, opts_timestamp = Some ts\<rparr>
               = ''t='' @ toString ts @ '',v1='' @ ?sig"
    by (simp add: generateTestHeaderString_def)
  have parsed: "parseHeader (''t='' @ toString ts @ '',v1='' @ ?sig) =
                  Inr \<lparr>timestamp = ts, signatures = [Some ?sig]\<rparr>"
    unfolding computeSignature_def Let_def by (rule parseHeader_generated [OF assms(1)])
  have fresh: "\<not> Date_now P div 1000 - ts > tolerance_or_default tolerance"
    using assms(3) by simp
  have cmp: "secureCompare (Some ?sig) (Some ?sig) = Inr True"
    by (simp add: secureCompare_total)
  show ?thesis
    unfolding hdr verifySignature_def verifySignature_try_def Let_def parsed
    using fresh cmp by (simp add: payloadString_def)
qed

theorem generated_header_verifies_witness:
  "(1699999900::int) \<noteq> 0
   \<and> isSafeInteger 1699999900
   \<and> Date_now test_platform div 1000 - 1699999900 \<le> tolerance_or_default None
   \<and> snd (verifySignature test_platform (PString ''{}'')
           (generateTestHeaderString test_platform
              \<lparr>opts_payload = ''{}'', opts_secret = ''whsec_test'',
               opts_timestamp = Some 1699999900\<rparr>)
           ''whsec_test'' None) = Inr True"
proof -
  have h1: "(1699999900::int) \<noteq> 0" by simp
  have h2: "isSafeInteger 1699999900" by (simp add: isSafeInteger_def)
  have h3: "Date_now test_platform div 1000 - 1699999900 \<le> tolerance_or_default None"
    by (simp add: test_platform_def tolerance_or_default_def DEFAULT_TOLERANCE_def)
  show ?thesis
    using generated_header_verifies [OF h1 h2 h3, of "''{}''" "''whsec_test''"] h1 h2 h3 by simp
qed

section \<open>HTTP client\<close>

lemma attempt_body_rejected:
  assumes "net_fetch E (fetches st) (round_request E u m params st) = Rejected n msg"
  shows "attempt_body E u m params tmo maxRetries attempt st =
           catch_block E tmo maxRetries attempt (JsError n msg) (after_fetch E u m params st)"
  using assms
  by (simp add: attempt_body_def try_block_def Let_def round_request_def round_requestId_def
      after_fetch_def)

lemma attempt_body_4xx:
  assumes "net_fetch E (fetches st) (round_request E u m params st) = Resolved response"
    and "400 \<le> status response" and "status response < 500" and "status response \<noteq> 429"
  shows "attempt_body E u m params tmo maxRetries attempt st =
           ((after_fetch E u m params st)
              \<lparr>lastError := Some (ACP (generate (status response) (errorBody response)
                   (Some (responseRequestId response (round_requestId E st)))))\<rparr>,
            Done (Inl (generate (status response) (errorBody response)
                   (Some (responseRequestId response (round_requestId E st))))))"
  using assms
  by (simp add: attempt_body_def try_block_def catch_block_def Let_def round_request_def
      round_requestId_def after_fetch_def ok_def)



lemma attempt_body_5xx_retry:
  assumes "net_fetch E (fetches st) (round_request E u m params st) = Resolved response"
    and "500 \<le> status response" and "int attempt < maxRetries"
  shows "attempt_body E u m params tmo maxRetries attempt st =
           (sleep_backoff E attempt (after_fetch E u m params st), Next)"
  using assms
  by (simp add: attempt_body_def try_block_def catch_block_def Let_def round_request_def
      round_requestId_def after_fetch_def ok_def)

lemma attempt_body_5xx_last:
  assumes "net_fetch E (fetches st) (round_request E u m params st) = Resolved response"
    and "500 \<le> status response" and "\<not> int attempt < maxRetries"
  shows "attempt_body E u m params tmo maxRetries attempt st =
           ((after_fetch E u m params st)
              \<lparr>lastError := Some (ACP (generate (status response) (errorBody response)
                   (Some (responseRequestId response (round_requestId E st)))))\<rparr>,
            Done (Inl (generate (status response) (errorBody response)
                   (Some (responseRequestId response (round_requestId E st))))))"
  using assms
  by (simp add: attempt_body_def try_block_def catch_block_def Let_def round_request_def
      round_requestId_def after_fetch_def ok_def)

lemma generate_5xx:
  assumes "500 \<le> sc"
  shows "generate sc b rid =
           ACPAPIError (js_or (js_get (js_or (js_or (js_get_opt b ''error'') b) (JObj [])) ''message'')
                          (JStr (''Request failed with status '' @ toString sc))) sc rid"
  using assms by (simp add: generate_def Let_def)


lemma fetch_requests_append: "fetch_requests (xs @ ys) = fetch_requests xs @ fetch_requests ys"
  by (induction xs rule: fetch_requests.induct) auto

text \<open>
  C4. When the response received in a round of the loop has a status from 400 to 499
  other than 429, \<open>makeRequest\<close> ends in that round, whatever the remaining retry
  budget: it throws the error that \<open>ACPError.generate\<close> builds for the status (the
  authentication, permission or not-found error for 401, 403 or 404, the invalid request
  error otherwise), and the only effect of the round is the one fetch (no sleep, no
  further fetch).
\<close>

theorem client_error_is_terminal:
  assumes "int attempt \<le> maxRetries"
    and "net_fetch E (fetches st) (round_request E u m params st) = Resolved response"
    and "400 \<le> status response" and "status response < 500" and "status response \<noteq> 429"
  shows "makeRequest_loop E u m params tmo maxRetries attempt st =
           ((after_fetch E u m params st)
              \<lparr>lastError := Some (ACP (generate (status response) (errorBody response)
                   (Some (responseRequestId response (round_requestId E st)))))\<rparr>,
            Inl (generate (status response) (errorBody response)
                   (Some (responseRequestId response (round_requestId E st)))))
         \<and> effects (fst (makeRequest_loop E u m params tmo maxRetries attempt st)) =
             effects st @ [Fetch (round_request E u m params st)]
         \<and> name (generate (status response) (errorBody response)
                   (Some (responseRequestId response (round_requestId E st)))) =
             (if status response = 401 then ''ACPAuthenticationError''
              else if status response = 403 then ''ACPPermissionError''
              else if status response = 404 then ''ACPNotFoundError''
              else ''ACPInvalidRequestError'')"
proof -
  have "makeRequest_loop E u m params tmo maxRetries attempt st =
           ((after_fetch E u m params st)
              \<lparr>lastError := Some (ACP (generate (status response) (errorBody response)
                   (Some (responseRequestId response (round_requestId E st)))))\<rparr>,
            Inl (generate (status response) (errorBody response)
                   (Some (responseRequestId response (round_requestId E st)))))"
    using assms(1) attempt_body_4xx [OF assms(2-5), of tmo maxRetries attempt]
    by (subst makeRequest_loop.simps) simp
  moreover have "name (generate (status response) b rid) =
             (if status response = 401 then ''ACPAuthenticationError''
              else if status response = 403 then ''ACPPermissionError''
              else if status response = 404 then ''ACPNotFoundError''
              else ''ACPInvalidRequestError'')" for b rid
    using assms(3-5)
    by (simp add: generate_def Let_def ACPAuthenticationError_def ACPPermissionError_def
        ACPNotFoundError_def ACPInvalidRequestError_def ACPError_def)
  ultimately show ?thesis by (simp add: after_fetch_def)
qed



lemma after_fetch_requests:
  "fetch_requests (effects (after_fetch E u m params st)) =
     fetch_requests (effects st) @ [round_request E u m params st]"
  by (simp add: after_fetch_def fetch_requests_append)

lemma sleep_backoff_requests:
  "fetch_requests (effects (sleep_backoff E attempt st)) = fetch_requests (effects st)"
  by (simp add: sleep_backoff_def fetch_requests_append)

lemma loop_all_503:
  shows "\<forall>k req. \<exists>r. net_fetch E k req = Resolved r \<and> status r = 503 \<Longrightarrow>
         int attempt \<le> maxRetries \<Longrightarrow>
         \<exists>st' e. makeRequest_loop E u m params tmo maxRetries attempt st = (st', Inl e)
           \<and> length (fetch_requests (effects st')) =
               length (fetch_requests (effects st)) + nat (maxRetries - int attempt + 1)
           \<and> name e = ''ACPAPIError'' \<and> type e = ''api_error'' \<and> statusCode e = 503"
proof (induction E u m params tmo maxRetries attempt st rule: makeRequest_loop.induct)
  case (1 E u m params tmo maxRetries attempt st)
  note all = "1.prems"(1) and bound = "1.prems"(2)
  from all obtain r where r: "net_fetch E (fetches st) (round_request E u m params st) = Resolved r"
    and s: "status r = 503" by blast
  have s5: "500 \<le> status r" using s by simp
  show ?case
  proof (cases "int attempt < maxRetries")
    case True
    have body: "attempt_body E u m params tmo maxRetries attempt st =
                  (sleep_backoff E attempt (after_fetch E u m params st), Next)"
      by (rule attempt_body_5xx_retry [OF r s5 True])
    have le: "int (attempt + 1) \<le> maxRetries" using True by simp
    from "1.IH" [OF bound body [symmetric] refl all le]
    obtain st' e where
      res: "makeRequest_loop E u m params tmo maxRetries (attempt + 1)
              (sleep_backoff E attempt (after_fetch E u m params st)) = (st', Inl e)"
      and len: "length (fetch_requests (effects st')) =
                  length (fetch_requests (effects (sleep_backoff E attempt (after_fetch E u m params st))))
                  + nat (maxRetries - int (attempt + 1) + 1)"
      and e: "name e = ''ACPAPIError'' \<and> type e = ''api_error'' \<and> statusCode e = 503"
      by blast
    have "makeRequest_loop E u m params tmo maxRetries attempt st = (st', Inl e)"
      using bound body res by (subst makeRequest_loop.simps) simp
    moreover have "length (fetch_requests (effects st')) =
               length (fetch_requests (effects st)) + nat (maxRetries - int attempt + 1)"
      using len True by (simp add: sleep_backoff_requests after_fetch_requests)
    ultimately show ?thesis using e by blast
  next
    case False
    with bound have eq: "int attempt = maxRetries" by simp
    have body: "attempt_body E u m params tmo maxRetries attempt st =
           ((after_fetch E u m params st)
              \<lparr>lastError := Some (ACP (generate (status r) (errorBody r)
                   (Some (responseRequestId r (round_requestId E st)))))\<rparr>,
            Done (Inl (generate (status r) (errorBody r)
                   (Some (responseRequestId r (round_requestId E st))))))"
      by (rule attempt_body_5xx_last [OF r s5 False])
    have "makeRequest_loop E u m params tmo maxRetries attempt st =
           ((after_fetch E u m params st)
              \<lparr>lastError := Some (ACP (generate (status r) (errorBody r)
                   (Some (responseRequestId r (round_requestId E st)))))\<rparr>,
            Inl (generate (status r) (errorBody r)
                   (Some (responseRequestId r (round_requestId E st)))))"
      using bound body by (subst makeRequest_loop.simps) simp
    moreover have "fetch_requests (effects ((after_fetch E u m params st)
              \<lparr>lastError := Some (ACP (generate (status r) (errorBody r)
                   (Some (responseRequestId r (round_requestId E st)))))\<rparr>)) =
             fetch_requests (effects st) @ [round_request E u m params st]"
      using after_fetch_requests [of E u m params st] by simp
    moreover have "name (generate (status r) (errorBody r)
                   (Some (responseRequestId r (round_requestId E st)))) = ''ACPAPIError''"
      and "type (generate (status r) (errorBody r)
                   (Some (responseRequestId r (round_requestId E st)))) = ''api_error''"
      and "statusCode (generate (status r) (errorBody r)
                   (Some (responseRequestId r (round_requestId E st)))) = 503"
      using s by (simp_all add: generate_5xx ACPAPIError_def ACPError_def)
    ultimately show ?thesis using eq by simp
  qed
qed

text \<open>
  C3, amended. If every fetch of one \<open>makeRequest\<close> call is answered with status 503
  and the effective \<open>maxNetworkRetries\<close> is 2, then exactly 3 fetches are made and the
  call then throws an \<open>ACPAPIError\<close> (type \<open>api_error\<close>, status code 503).
\<close>

theorem three_attempts_then_api_error:
  assumes "\<forall>k req. \<exists>r. net_fetch E k req = Resolved r \<and> status r = 503"
    and "(case Option.bind options opt_maxNetworkRetries of
            None \<Rightarrow> maxNetworkRetries config | Some r \<Rightarrow> r) = 2"
  shows "\<exists>st e. makeRequest E config m path params options = (st, Inl e)
           \<and> length (fetch_requests (effects st)) = 3
           \<and> name e = ''ACPAPIError'' \<and> type e = ''api_error'' \<and> statusCode e = 503"
proof -
  have "\<exists>st' e. makeRequest_loop E u m params tmo 2 0 st0 = (st', Inl e)
           \<and> length (fetch_requests (effects st')) =
               length (fetch_requests (effects st0)) + nat (2 - int 0 + 1)
           \<and> name e = ''ACPAPIError'' \<and> type e = ''api_error'' \<and> statusCode e = 503"
    for u tmo st0
    by (rule loop_all_503 [OF assms(1)]) simp
  then show ?thesis
    unfolding makeRequest_def Let_def assms(2) by fastforce
qed











section \<open>The HTTP client at concrete inputs\<close>

lemmas http_eval =
  makeRequest_def makeRequest_loop.simps attempt_body_def try_block_def catch_block_def
  sleep_backoff_def getBackoffMs_def jitter_def generateRequestId_def responseRequestId_def
  errorBody_def retryAfter_def times_1000_def ok_def generate_def userAgent_def
  lastError_message_def test_config_def test_response_def test_env_def frozen_clock_env_def
  test_options_def test_state_def round_request_def round_requestId_def after_fetch_def
  request_body_def
  js_or_def js_get_opt_def
  ACPError_def ACPAPIError_def ACPRateLimitError_def ACPConnectionError_def
  ACPInvalidRequestError_def ACPNotFoundError_def ACPPermissionError_def
  ACPAuthenticationError_def default_arg_def Let_def
  toString_def digits.simps digit_char_def parseInt_def skipWhiteSpace.simps whiteSpaceLen_def
  whiteSpaceSeqs_def isDigit_def digits_value_def digit_value_def

theorem client_error_is_terminal_witness:
  "int 0 \<le> 2
   \<and> net_fetch (test_env 404 None) (fetches test_state)
        (round_request (test_env 404 None) ''u'' ''GET'' None test_state) =
       Resolved (test_response 404 None)
   \<and> 400 \<le> status (test_response 404 None) \<and> status (test_response 404 None) < 500
   \<and> status (test_response 404 None) \<noteq> 429
   \<and> snd (makeRequest_loop (test_env 404 None) ''u'' ''GET'' None 80000 2 0 test_state) =
       Inl (ACPNotFoundError (JStr ''failed'') (Some ''req_1700000000000_i''))
   \<and> effects (fst (makeRequest_loop (test_env 404 None) ''u'' ''GET'' None 80000 2 0 test_state)) =
       [Fetch \<lparr>url = ''u'', verb = ''GET'',
               headers = [(''Content-Type'', ''application/json''),
                          (''X-Request-Id'', ''req_1700000000000_i'')],
               body = None\<rparr>]"
proof -
  have h1: "int 0 \<le> 2" by simp
  have h2: "net_fetch (test_env 404 None) (fetches test_state)
        (round_request (test_env 404 None) ''u'' ''GET'' None test_state) =
       Resolved (test_response 404 None)"
    by (simp add: test_env_def)
  have h3: "400 \<le> status (test_response 404 None)"
    and h4: "status (test_response 404 None) < 500"
    and h5: "status (test_response 404 None) \<noteq> 429"
    by (simp_all add: test_response_def)
  have g: "generate (status (test_response 404 None)) (errorBody (test_response 404 None))
             (Some (responseRequestId (test_response 404 None)
                      (round_requestId (test_env 404 None) test_state))) =
           ACPNotFoundError (JStr ''failed'') (Some ''req_1700000000000_i'')"
    by (simp add: http_eval)
  have r: "round_request (test_env 404 None) ''u'' ''GET'' None test_state =
             \<lparr>url = ''u'', verb = ''GET'',
               headers = [(''Content-Type'', ''application/json''),
                          (''X-Request-Id'', ''req_1700000000000_i'')],
               body = None\<rparr>"
    by (simp add: http_eval)
  have e: "effects test_state = []" by (simp add: test_state_def)
  note t = client_error_is_terminal [OF h1 h2 h3 h4 h5, of 80000]
  from conjunct1 [OF t] have c1: "snd (makeRequest_loop (test_env 404 None) ''u'' ''GET'' None 80000 2 0 test_state) =
       Inl (ACPNotFoundError (JStr ''failed'') (Some ''req_1700000000000_i''))"
    by (simp add: g)
  from conjunct1 [OF conjunct2 [OF t]] have c2: "effects (fst (makeRequest_loop (test_env 404 None) ''u'' ''GET'' None 80000 2 0
                      test_state)) =
       [Fetch \<lparr>url = ''u'', verb = ''GET'',
               headers = [(''Content-Type'', ''application/json''),
                          (''X-Request-Id'', ''req_1700000000000_i'')],
               body = None\<rparr>]"
    by (simp only: r e append_Nil)
  show ?thesis
    using h1 h2 h3 h4 h5 c1 c2 by blast
qed



text \<open>
  C3 fails as stated: with status 503 on every attempt and two retries allowed, three
  fetches are made and the error thrown is an \<open>ACPAPIError\<close> of type \<open>api_error\<close>,
  not a connection error.
\<close>

theorem all_503_throws_api_error_not_connection_error:
  "length (fetch_requests (effects (fst (makeRequest (test_env 503 None) test_config ''GET''
             ''/checkout_sessions/cs_1'' None None)))) = 3
   \<and> snd (makeRequest (test_env 503 None) test_config ''GET'' ''/checkout_sessions/cs_1''
            None None) =
       Inl \<lparr>name = ''ACPAPIError'', message = JStr ''failed'', type = ''api_error'',
            code = JStr ''internal_error'', statusCode = 503, param = JUndefined,
            requestId = Some ''req_1700000002000_i''\<rparr>
   \<and> ''api_error'' \<noteq> type (ACPConnectionError JUndefined)"
  by (simp add: http_eval)

theorem three_attempts_then_api_error_witness:
  "(\<forall>k req. \<exists>r. net_fetch (test_env 503 None) k req = Resolved r \<and> status r = 503)
   \<and> (case Option.bind None opt_maxNetworkRetries of
         None \<Rightarrow> maxNetworkRetries test_config | Some r \<Rightarrow> r) = 2
   \<and> (\<exists>st e. makeRequest (test_env 503 None) test_config ''GET'' ''/checkout_sessions/cs_1''
                 None None = (st, Inl e)
          \<and> length (fetch_requests (effects st)) = 3
          \<and> name e = ''ACPAPIError'' \<and> type e = ''api_error'' \<and> statusCode e = 503)"
proof -
  have h1: "\<forall>k req. \<exists>r. net_fetch (test_env 503 None) k req = Resolved r \<and> status r = 503"
    by (simp add: test_env_def test_response_def)
  have h2: "(case Option.bind None opt_maxNetworkRetries of
         None \<Rightarrow> maxNetworkRetries test_config | Some r \<Rightarrow> r) = 2"
    by (simp add: test_config_def)
  show ?thesis
    using three_attempts_then_api_error [OF h1 h2, of "''GET''" "''/checkout_sessions/cs_1''" None]
      h1 h2
    by blast
qed



end
